theory Spec2Isabelle
  imports Complex_Main
begin

section \<open>The device console of \<^verbatim>\<open>src/src/App.vue\<close>\<close>

text \<open>
  The component keeps its whole state in six Vue refs and talks to the Rust driver in two
  ways: \<^verbatim>\<open>invoke(name, args)\<close>, an awaited request that either resolves with a
  response or rejects with an error, and \<^verbatim>\<open>listen(topic, handler)\<close>, which
  registers a handler for notifications.

  The embedding is by explicit state passing. Each \<^verbatim>\<open>async function\<close> of the script
  becomes a function from the state before the call to the state after it has completed.
  What the driver answers to an \<^verbatim>\<open>await invoke(...)\<close> is an argument of that function
  (a sum: \<open>Inl\<close> the rejection, \<open>Inr\<close> the response), so a theorem quantified over
  it holds for every driver. The requests sent are recorded, in order, in the field
  \<open>invoked\<close>, which the source does not have: it is the trace of the effect
  \<^verbatim>\<open>invoke\<close>.

  An operation is modelled from its call to its completion in one step: a notification
  is handled before an operation starts or after it has completed. The template binds
  \<^verbatim>\<open>selectedBaud\<close> and \<^verbatim>\<open>canMessage\<close> to its controls; what the
  user chose or typed is the value of these fields in the state an operation starts from.

  The script never computes with a number, it only stores it and passes it on. The
  numbers it writes itself and the versions of the board are modelled as \<open>int\<close>; a
  number typed into the input field may have a fraction and is a \<open>real\<close> (the
  rounding of \<^verbatim>\<open>parseFloat\<close> to a double is not modelled). Strings are byte
  lists holding the UTF-8 encoding of the source's text; the Chinese messages are
  written byte by byte, with their code points in the comment above each.
\<close>

subsection \<open>Data\<close>

text \<open>\<^verbatim>\<open>interface BoardInfo\<close> (lines 6-10).\<close>

record BoardInfo =
  hardware_version :: int
  firmware_version :: int
  serial_number :: string

text \<open>The object type of the entries of \<^verbatim>\<open>baudRates\<close> (lines 66-84).\<close>

record BaudRate =
  rate :: string
  timing0 :: int
  timing1 :: int

text \<open>
  The seven requests the script sends, each with the arguments of its argument object in
  the order the source writes them:
  \<^verbatim>\<open>open_can_device {devType, devIndex}\<close>,
  \<^verbatim>\<open>stop_can_device {devType, devIndex}\<close>,
  \<^verbatim>\<open>read_board_info {devType, devIndex}\<close>,
  \<^verbatim>\<open>reconnect_can_device {devType, devIndex, can1, can2, timing0, timing1}\<close>,
  \<^verbatim>\<open>start_receiving_data {devType, devIndex, canChannel}\<close>,
  \<^verbatim>\<open>stop_receiving_data\<close> (no arguments),
  \<^verbatim>\<open>transmit_can_data {data, devType, devIndex, canChannel}\<close>.
\<close>

text \<open>
  What the ref \<^verbatim>\<open>canMessage\<close> can hold. Line 141 declares it
  \<^verbatim>\<open>number | null\<close> and creates it with \<^verbatim>\<open>null\<close>. Line 202 binds it to a
  number field with \<^verbatim>\<open>v-model.number\<close>, which at every input event assigns
  \<^verbatim>\<open>parseFloat(value)\<close>, or \<^verbatim>\<open>value\<close> itself, a string, when that is
  \<^verbatim>\<open>NaN\<close>. The cast to the declared type is not checked when the program runs,
  so the ref holds \<^verbatim>\<open>null\<close>, a number or a string.
\<close>

datatype payload = Null | Number real | Text string

datatype command =
    open_can_device int int
  | stop_can_device int int
  | read_board_info int int
  | reconnect_can_device int int int int int int
  | start_receiving_data int int int
  | stop_receiving_data
  | transmit_can_data payload int int int

text \<open>
  The outcome of one \<^verbatim>\<open>await invoke(...)\<close>: \<open>Inl error\<close> when the promise rejects
  (\<open>error\<close> is the text \<^verbatim>\<open>String(error)\<close> of the rejection), \<open>Inr response\<close> when
  it resolves.
\<close>

type_synonym 'a outcome = "string + 'a"

text \<open>
  The refs of the script: \<^verbatim>\<open>errorMessage\<close> and \<^verbatim>\<open>actionMessage\<close> (lines 12-13),
  \<^verbatim>\<open>boardInfo\<close> (line 23), \<^verbatim>\<open>selectedBaud\<close> (line 86; \<^verbatim>\<open>undefined\<close> is
  \<open>None\<close>), \<^verbatim>\<open>canData\<close> (line 111), \<^verbatim>\<open>canMessage\<close> (line 141); and the trace
  \<open>invoked\<close> of the requests sent so far, each with whether it resolved.
\<close>

record app =
  errorMessage :: "string option"
  actionMessage :: "string option"
  boardInfo :: "BoardInfo option"
  selectedBaud :: "BaudRate option"
  canData :: string
  canMessage :: payload
  invoked :: "(command \<times> bool) list"

subsection \<open>The messages\<close>

text \<open>Line 34: U+8B80 U+53D6 " Board Info " U+5931 U+6557 ": ".\<close>

definition msg_read_failed :: string where
  "msg_read_failed =
     [CHR 0xE8, CHR 0xAE, CHR 0x80, CHR 0xE5, CHR 0x8F, CHR 0x96] @ '' Board Info '' @
     [CHR 0xE5, CHR 0xA4, CHR 0xB1, CHR 0xE6, CHR 0x95, CHR 0x97] @ '': ''"

text \<open>Line 48: U+958B U+555F " CAN " U+88DD U+7F6E U+5931 U+6557 ": ".\<close>

definition msg_open_failed :: string where
  "msg_open_failed =
     [CHR 0xE9, CHR 0x96, CHR 0x8B, CHR 0xE5, CHR 0x95, CHR 0x9F] @ '' CAN '' @
     [CHR 0xE8, CHR 0xA3, CHR 0x9D, CHR 0xE7, CHR 0xBD, CHR 0xAE,
      CHR 0xE5, CHR 0xA4, CHR 0xB1, CHR 0xE6, CHR 0x95, CHR 0x97] @ '': ''"

text \<open>Line 62: U+95DC U+9589 " CAN " U+88DD U+7F6E U+5931 U+6557 ": ".\<close>

definition msg_close_failed :: string where
  "msg_close_failed =
     [CHR 0xE9, CHR 0x97, CHR 0x9C, CHR 0xE9, CHR 0x96, CHR 0x89] @ '' CAN '' @
     [CHR 0xE8, CHR 0xA3, CHR 0x9D, CHR 0xE7, CHR 0xBD, CHR 0xAE,
      CHR 0xE5, CHR 0xA4, CHR 0xB1, CHR 0xE6, CHR 0x95, CHR 0x97] @ '': ''"

text \<open>Line 90: U+8ACB U+9078 U+64C7 U+4E00 U+500B U+6CE2 U+7279 U+7387 U+3002.\<close>

definition msg_select_baud :: string where
  "msg_select_baud =
     [CHR 0xE8, CHR 0xAB, CHR 0x8B, CHR 0xE9, CHR 0x81, CHR 0xB8, CHR 0xE6, CHR 0x93, CHR 0x87,
      CHR 0xE4, CHR 0xB8, CHR 0x80, CHR 0xE5, CHR 0x80, CHR 0x8B, CHR 0xE6, CHR 0xB3, CHR 0xA2,
      CHR 0xE7, CHR 0x89, CHR 0xB9, CHR 0xE7, CHR 0x8E, CHR 0x87, CHR 0xE3, CHR 0x80, CHR 0x82]"

text \<open>
  Line 105: U+91CD U+65B0 U+9023 U+7DDA " CAN " U+88DD U+7F6E U+5931 U+6557 U+3002.
\<close>

definition msg_reconnect_failed :: string where
  "msg_reconnect_failed =
     [CHR 0xE9, CHR 0x87, CHR 0x8D, CHR 0xE6, CHR 0x96, CHR 0xB0,
      CHR 0xE9, CHR 0x80, CHR 0xA3, CHR 0xE7, CHR 0xB7, CHR 0x9A] @ '' CAN '' @
     [CHR 0xE8, CHR 0xA3, CHR 0x9D, CHR 0xE7, CHR 0xBD, CHR 0xAE, CHR 0xE5, CHR 0xA4, CHR 0xB1,
      CHR 0xE6, CHR 0x95, CHR 0x97, CHR 0xE3, CHR 0x80, CHR 0x82]"

text \<open>Line 126: U+958B U+59CB U+63A5 U+6536 " CAN " U+8CC7 U+6599 "...".\<close>

definition msg_receiving :: string where
  "msg_receiving =
     [CHR 0xE9, CHR 0x96, CHR 0x8B, CHR 0xE5, CHR 0xA7, CHR 0x8B,
      CHR 0xE6, CHR 0x8E, CHR 0xA5, CHR 0xE6, CHR 0x94, CHR 0xB6] @ '' CAN '' @
     [CHR 0xE8, CHR 0xB3, CHR 0x87, CHR 0xE6, CHR 0x96, CHR 0x99] @ ''...''"

text \<open>
  Line 128: U+958B U+59CB U+63A5 U+6536 U+8CC7 U+6599 U+5931 U+6557 ": ".
\<close>

definition msg_start_failed :: string where
  "msg_start_failed =
     [CHR 0xE9, CHR 0x96, CHR 0x8B, CHR 0xE5, CHR 0xA7, CHR 0x8B, CHR 0xE6, CHR 0x8E, CHR 0xA5,
      CHR 0xE6, CHR 0x94, CHR 0xB6, CHR 0xE8, CHR 0xB3, CHR 0x87, CHR 0xE6, CHR 0x96, CHR 0x99,
      CHR 0xE5, CHR 0xA4, CHR 0xB1, CHR 0xE6, CHR 0x95, CHR 0x97] @ '': ''"

text \<open>
  Line 137: U+505C U+6B62 U+63A5 U+6536 U+8CC7 U+6599 U+5931 U+6557 ": ".
\<close>

definition msg_stop_failed :: string where
  "msg_stop_failed =
     [CHR 0xE5, CHR 0x81, CHR 0x9C, CHR 0xE6, CHR 0xAD, CHR 0xA2, CHR 0xE6, CHR 0x8E, CHR 0xA5,
      CHR 0xE6, CHR 0x94, CHR 0xB6, CHR 0xE8, CHR 0xB3, CHR 0x87, CHR 0xE6, CHR 0x96, CHR 0x99,
      CHR 0xE5, CHR 0xA4, CHR 0xB1, CHR 0xE6, CHR 0x95, CHR 0x97] @ '': ''"

text \<open>
  Line 144: U+8ACB U+8F38 U+5165 U+8981 U+50B3 U+9001 U+7684 U+6578 U+64DA U+3002.
\<close>

definition msg_enter_data :: string where
  "msg_enter_data =
     [CHR 0xE8, CHR 0xAB, CHR 0x8B, CHR 0xE8, CHR 0xBC, CHR 0xB8, CHR 0xE5, CHR 0x85, CHR 0xA5,
      CHR 0xE8, CHR 0xA6, CHR 0x81, CHR 0xE5, CHR 0x82, CHR 0xB3, CHR 0xE9, CHR 0x80, CHR 0x81,
      CHR 0xE7, CHR 0x9A, CHR 0x84, CHR 0xE6, CHR 0x95, CHR 0xB8, CHR 0xE6, CHR 0x93, CHR 0x9A,
      CHR 0xE3, CHR 0x80, CHR 0x82]"

text \<open>Line 156: U+50B3 U+9001 " CAN " U+6578 U+64DA U+5931 U+6557 ": ".\<close>

definition msg_transmit_failed :: string where
  "msg_transmit_failed =
     [CHR 0xE5, CHR 0x82, CHR 0xB3, CHR 0xE9, CHR 0x80, CHR 0x81] @ '' CAN '' @
     [CHR 0xE6, CHR 0x95, CHR 0xB8, CHR 0xE6, CHR 0x93, CHR 0x9A,
      CHR 0xE5, CHR 0xA4, CHR 0xB1, CHR 0xE6, CHR 0x95, CHR 0x97] @ '': ''"

subsection \<open>The baud rate table and the initial state\<close>

text \<open>\<^verbatim>\<open>const baudRates\<close> (lines 66-84), entry by entry.\<close>

definition baudRates :: "BaudRate list" where
  "baudRates =
    [\<lparr>rate = ''10 Kbps'', timing0 = 0x31, timing1 = 0x1C\<rparr>,
     \<lparr>rate = ''20 Kbps'', timing0 = 0x18, timing1 = 0x1C\<rparr>,
     \<lparr>rate = ''40 Kbps'', timing0 = 0x87, timing1 = 0xFF\<rparr>,
     \<lparr>rate = ''50 Kbps'', timing0 = 0x09, timing1 = 0x1C\<rparr>,
     \<lparr>rate = ''80 Kbps'', timing0 = 0x83, timing1 = 0xFF\<rparr>,
     \<lparr>rate = ''100 Kbps'', timing0 = 0x04, timing1 = 0x1C\<rparr>,
     \<lparr>rate = ''125 Kbps'', timing0 = 0x03, timing1 = 0x1C\<rparr>,
     \<lparr>rate = ''200 Kbps'', timing0 = 0x81, timing1 = 0xFA\<rparr>,
     \<lparr>rate = ''250 Kbps'', timing0 = 0x01, timing1 = 0x1C\<rparr>,
     \<lparr>rate = ''400 Kbps'', timing0 = 0x80, timing1 = 0xFA\<rparr>,
     \<lparr>rate = ''500 Kbps'', timing0 = 0x00, timing1 = 0x1C\<rparr>,
     \<lparr>rate = ''666 Kbps'', timing0 = 0x80, timing1 = 0xB6\<rparr>,
     \<lparr>rate = ''800 Kbps'', timing0 = 0x00, timing1 = 0x16\<rparr>,
     \<lparr>rate = ''1000 Kbps'', timing0 = 0x00, timing1 = 0x14\<rparr>,
     \<lparr>rate = ''33.33 Kbps'', timing0 = 0x09, timing1 = 0x6F\<rparr>,
     \<lparr>rate = ''66.66 Kbps'', timing0 = 0x04, timing1 = 0x6F\<rparr>,
     \<lparr>rate = ''83.33 Kbps'', timing0 = 0x03, timing1 = 0x6F\<rparr>]"

text \<open>
  The state when the script has run: every ref at the value it is created with.
  \<^verbatim>\<open>Array.prototype.find\<close> returns the first entry satisfying the predicate, or
  \<^verbatim>\<open>undefined\<close>; that is \<^const>\<open>find\<close> of the list library.
\<close>

definition initial :: app where
  "initial =
     \<lparr>errorMessage = None,
      actionMessage = None,
      boardInfo = None,
      selectedBaud = find (\<lambda>b. rate b = ''250 Kbps'') baudRates,
      canData = '''',
      canMessage = Null,
      invoked = []\<rparr>"

subsection \<open>The operations\<close>

text \<open>
  Sending a request: the only effect visible to the script is the outcome, so the model
  appends the request to the trace, with \<open>True\<close> when it resolved.
\<close>

definition invoke :: "command \<Rightarrow> 'a outcome \<Rightarrow> app \<Rightarrow> app" where
  "invoke c r s = s\<lparr>invoked := invoked s @ [(c, \<not> isl r)]\<rparr>"

text \<open>The two handlers registered in \<^verbatim>\<open>onMounted\<close> (lines 16-20 and 113-117).\<close>

definition on_error_message :: "string \<Rightarrow> app \<Rightarrow> app" where
  "on_error_message payload s = s\<lparr>errorMessage := Some payload\<rparr>"

definition on_can_data :: "string \<Rightarrow> app \<Rightarrow> app" where
  "on_can_data payload s = s\<lparr>canData := payload\<rparr>"

text \<open>\<^verbatim>\<open>readBoardInfo\<close> (lines 26-36).\<close>

definition readBoardInfo :: "BoardInfo outcome \<Rightarrow> app \<Rightarrow> app" where
  "readBoardInfo r s =
     (let s1 = invoke (read_board_info 4 0) r s in
      case r of
        Inr response \<Rightarrow> s1\<lparr>boardInfo := Some response\<rparr>
      | Inl error \<Rightarrow> s1\<lparr>errorMessage := Some (msg_read_failed @ error)\<rparr>)"

text \<open>
  \<^verbatim>\<open>openCanDevice\<close> (lines 39-50). It awaits two requests, so it takes two outcomes:
  \<open>ro\<close> of \<^verbatim>\<open>open_can_device\<close> and \<open>rb\<close> of the \<^verbatim>\<open>read_board_info\<close> sent by the
  nested \<^verbatim>\<open>readBoardInfo()\<close>, which is reached only when the first resolved. The nested
  call catches its own rejection, so the \<^verbatim>\<open>catch\<close> of line 47 sees only the rejection
  of \<^verbatim>\<open>open_can_device\<close>.
\<close>

definition openCanDevice :: "string outcome \<Rightarrow> BoardInfo outcome \<Rightarrow> app \<Rightarrow> app" where
  "openCanDevice ro rb s =
     (let s1 = invoke (open_can_device 4 0) ro s in
      case ro of
        Inr response \<Rightarrow> readBoardInfo rb (s1\<lparr>errorMessage := Some response\<rparr>)
      | Inl error \<Rightarrow> s1\<lparr>errorMessage := Some (msg_open_failed @ error)\<rparr>)"

text \<open>\<^verbatim>\<open>closeCanDevice\<close> (lines 53-64).\<close>

definition closeCanDevice :: "string outcome \<Rightarrow> app \<Rightarrow> app" where
  "closeCanDevice r s =
     (let s1 = invoke (stop_can_device 4 0) r s in
      case r of
        Inr response \<Rightarrow> s1\<lparr>errorMessage := Some response, boardInfo := None\<rparr>
      | Inl error \<Rightarrow> s1\<lparr>errorMessage := Some (msg_close_failed @ error)\<rparr>)"

text \<open>
  \<^verbatim>\<open>reconnectDevice\<close> (lines 88-107). The guard \<^verbatim>\<open>!selectedBaud.value\<close> holds exactly
  for \<^verbatim>\<open>undefined\<close>, an entry of the table being an object. The rejection is written
  to the console only; the message of line 105 does not contain it.
\<close>

definition reconnectDevice :: "string outcome \<Rightarrow> app \<Rightarrow> app" where
  "reconnectDevice r s =
     (case selectedBaud s of
        None \<Rightarrow> s\<lparr>errorMessage := Some msg_select_baud\<rparr>
      | Some baud \<Rightarrow>
          (let s1 = invoke (reconnect_can_device 4 0 0 1 (timing0 baud) (timing1 baud)) r s in
           case r of
             Inr response \<Rightarrow> s1\<lparr>actionMessage := Some response\<rparr>
           | Inl error \<Rightarrow> s1\<lparr>errorMessage := Some msg_reconnect_failed\<rparr>))"

text \<open>
  \<^verbatim>\<open>startReceivingData\<close> (lines 119-130). The response is not bound; its type is left
  open.
\<close>

definition startReceivingData :: "'a outcome \<Rightarrow> app \<Rightarrow> app" where
  "startReceivingData r s =
     (let s1 = invoke (start_receiving_data 4 0 0) r s in
      case r of
        Inr response \<Rightarrow> s1\<lparr>actionMessage := Some msg_receiving\<rparr>
      | Inl error \<Rightarrow> s1\<lparr>errorMessage := Some (msg_start_failed @ error)\<rparr>)"

text \<open>\<^verbatim>\<open>stopReceivingData\<close> (lines 132-139).\<close>

definition stopReceivingData :: "string outcome \<Rightarrow> app \<Rightarrow> app" where
  "stopReceivingData r s =
     (let s1 = invoke stop_receiving_data r s in
      case r of
        Inr response \<Rightarrow> s1\<lparr>actionMessage := Some response\<rparr>
      | Inl error \<Rightarrow> s1\<lparr>errorMessage := Some (msg_stop_failed @ error)\<rparr>)"

text \<open>
  The input field of line 202. The value of a number field is a valid number or, when
  the field is empty or what was typed is not a number, the empty string; the argument
  is \<open>Some n\<close> for the number \<open>n\<close> and \<open>None\<close> for the empty string. The
  number is stored as a number; the empty string does not parse and is stored as it is.
\<close>

definition on_input :: "real option \<Rightarrow> app \<Rightarrow> app" where
  "on_input v s =
     s\<lparr>canMessage := (case v of Some n \<Rightarrow> Number n | None \<Rightarrow> Text '''')\<rparr>"

text \<open>
  \<^verbatim>\<open>transmitCanData\<close> (lines 142-158). The guard is \<^verbatim>\<open>canMessage.value === null\<close>,
  a strict comparison: only \<^verbatim>\<open>null\<close> satisfies it, the number \<open>0\<close> and the
  empty string do not. Whatever passes the guard is sent as \<^verbatim>\<open>data\<close>.
\<close>

definition transmitCanData :: "string outcome \<Rightarrow> app \<Rightarrow> app" where
  "transmitCanData r s =
     (if canMessage s = Null then s\<lparr>errorMessage := Some msg_enter_data\<rparr>
      else
        (let s1 = invoke (transmit_can_data (canMessage s) 4 0 0) r s in
         case r of
           Inr response \<Rightarrow> s1\<lparr>actionMessage := Some response\<rparr>
         | Inl error \<Rightarrow> s1\<lparr>errorMessage := Some (msg_transmit_failed @ error)\<rparr>))"

subsection \<open>The phase of the specification\<close>

text \<open>
  The script has no variable for the phase of the session. The specification's phase is
  read off the trace of requests, following the transition table of its section 4.1 word
  for word: a request that resolved moves the phase along the row of the table whose
  "From" column holds the current phase, and nothing else moves it (a rejected request
  "leaves phase unchanged"). This definition follows the specification, not the source;
  it only serves to state what the claims say about the phase.
\<close>

datatype phase = Closed | Open | Receiving

definition spec_step :: "phase \<Rightarrow> command \<times> bool \<Rightarrow> phase" where
  "spec_step p e =
     (case e of (c, resolved) \<Rightarrow>
        if \<not> resolved then p
        else (case c of
                open_can_device dt di \<Rightarrow> (if p = Closed then Open else p)
              | stop_can_device dt di \<Rightarrow> Closed
              | start_receiving_data dt di ch \<Rightarrow> (if p = Open then Receiving else p)
              | stop_receiving_data \<Rightarrow> (if p = Receiving then Open else p)
              | _ \<Rightarrow> p))"

definition spec_phase :: "app \<Rightarrow> phase" where
  "spec_phase s = foldl spec_step Closed (invoked s)"

subsection \<open>Example inputs\<close>

text \<open>
  The identity and the frame of the scenarios of the specification's section 8, and the
  state reached from \<^const>\<open>initial\<close> when the device has been opened, reception has
  been started (every request resolving) and that frame has arrived.
\<close>

definition board_ABC123 :: BoardInfo where
  "board_ABC123 = \<lparr>hardware_version = 1, firmware_version = 2, serial_number = ''ABC123''\<rparr>"

definition receiving_state :: app where
  "receiving_state =
     on_can_data ''ID=123 DATA=0102''
       (startReceivingData (Inr ())
          (openCanDevice (Inr ''opened'') (Inr board_ABC123) initial))"

text \<open>
  The state when the user has typed \<open>5\<close> into the input field and then cleared it.
\<close>

definition cleared_field :: app where
  "cleared_field = on_input None (on_input (Some 5) initial)"

text \<open>The initial state with the selection of the baud rate removed.\<close>

definition unselected :: app where
  "unselected = initial\<lparr>selectedBaud := None\<rparr>"

section \<open>Properties\<close>

subsection \<open>Each operation, outcome by outcome\<close>

lemma readBoardInfo_resolved:
  "readBoardInfo (Inr b) s =
     s\<lparr>boardInfo := Some b, invoked := invoked s @ [(read_board_info 4 0, True)]\<rparr>"
  by (simp add: readBoardInfo_def invoke_def)

lemma readBoardInfo_rejected:
  "readBoardInfo (Inl e) s =
     s\<lparr>errorMessage := Some (msg_read_failed @ e),
       invoked := invoked s @ [(read_board_info 4 0, False)]\<rparr>"
  by (simp add: readBoardInfo_def invoke_def)

lemma openCanDevice_resolved:
  "openCanDevice (Inr m) rb s =
     readBoardInfo rb
       (s\<lparr>invoked := invoked s @ [(open_can_device 4 0, True)], errorMessage := Some m\<rparr>)"
  by (simp add: openCanDevice_def invoke_def)

lemma openCanDevice_rejected:
  "openCanDevice (Inl e) rb s =
     s\<lparr>errorMessage := Some (msg_open_failed @ e),
       invoked := invoked s @ [(open_can_device 4 0, False)]\<rparr>"
  by (simp add: openCanDevice_def invoke_def)

lemma closeCanDevice_resolved:
  "closeCanDevice (Inr m) s =
     s\<lparr>errorMessage := Some m, boardInfo := None,
       invoked := invoked s @ [(stop_can_device 4 0, True)]\<rparr>"
  by (simp add: closeCanDevice_def invoke_def)

lemma closeCanDevice_rejected:
  "closeCanDevice (Inl e) s =
     s\<lparr>errorMessage := Some (msg_close_failed @ e),
       invoked := invoked s @ [(stop_can_device 4 0, False)]\<rparr>"
  by (simp add: closeCanDevice_def invoke_def)

lemma reconnectDevice_unselected:
  "selectedBaud s = None \<Longrightarrow> reconnectDevice r s = s\<lparr>errorMessage := Some msg_select_baud\<rparr>"
  by (simp add: reconnectDevice_def)

lemma reconnectDevice_resolved:
  "selectedBaud s = Some baud \<Longrightarrow>
   reconnectDevice (Inr m) s =
     s\<lparr>actionMessage := Some m,
       invoked := invoked s @
         [(reconnect_can_device 4 0 0 1 (timing0 baud) (timing1 baud), True)]\<rparr>"
  by (simp add: reconnectDevice_def invoke_def)

lemma reconnectDevice_rejected:
  "selectedBaud s = Some baud \<Longrightarrow>
   reconnectDevice (Inl e) s =
     s\<lparr>errorMessage := Some msg_reconnect_failed,
       invoked := invoked s @
         [(reconnect_can_device 4 0 0 1 (timing0 baud) (timing1 baud), False)]\<rparr>"
  by (simp add: reconnectDevice_def invoke_def)

lemma startReceivingData_resolved:
  "startReceivingData (Inr a) s =
     s\<lparr>actionMessage := Some msg_receiving,
       invoked := invoked s @ [(start_receiving_data 4 0 0, True)]\<rparr>"
  by (simp add: startReceivingData_def invoke_def)

lemma startReceivingData_rejected:
  "startReceivingData (Inl e) s =
     s\<lparr>errorMessage := Some (msg_start_failed @ e),
       invoked := invoked s @ [(start_receiving_data 4 0 0, False)]\<rparr>"
  by (simp add: startReceivingData_def invoke_def)

lemma stopReceivingData_resolved:
  "stopReceivingData (Inr m) s =
     s\<lparr>actionMessage := Some m, invoked := invoked s @ [(stop_receiving_data, True)]\<rparr>"
  by (simp add: stopReceivingData_def invoke_def)

lemma stopReceivingData_rejected:
  "stopReceivingData (Inl e) s =
     s\<lparr>errorMessage := Some (msg_stop_failed @ e),
       invoked := invoked s @ [(stop_receiving_data, False)]\<rparr>"
  by (simp add: stopReceivingData_def invoke_def)

lemma transmitCanData_absent:
  "canMessage s = Null \<Longrightarrow> transmitCanData r s = s\<lparr>errorMessage := Some msg_enter_data\<rparr>"
  by (simp add: transmitCanData_def)

lemma transmitCanData_resolved:
  "canMessage s \<noteq> Null \<Longrightarrow>
   transmitCanData (Inr m) s =
     s\<lparr>actionMessage := Some m,
       invoked := invoked s @ [(transmit_can_data (canMessage s) 4 0 0, True)]\<rparr>"
  by (simp add: transmitCanData_def invoke_def)

lemma transmitCanData_rejected:
  "canMessage s \<noteq> Null \<Longrightarrow>
   transmitCanData (Inl e) s =
     s\<lparr>errorMessage := Some (msg_transmit_failed @ e),
       invoked := invoked s @ [(transmit_can_data (canMessage s) 4 0 0, False)]\<rparr>"
  by (simp add: transmitCanData_def invoke_def)

lemmas op_defs =
  invoke_def readBoardInfo_def openCanDevice_def closeCanDevice_def reconnectDevice_def
  startReceivingData_def stopReceivingData_def transmitCanData_def
  on_error_message_def on_can_data_def on_input_def

lemmas resolved_simps =
  readBoardInfo_resolved openCanDevice_resolved closeCanDevice_resolved
  startReceivingData_resolved stopReceivingData_resolved

text \<open>The phase at the start, and single steps of the phase.\<close>

lemma spec_phase_initial: "spec_phase initial = Closed"
  by (simp add: spec_phase_def initial_def)

lemma spec_step_rejected: "spec_step p (c, False) = p"
  by (simp add: spec_step_def)

lemma spec_step_open: "spec_step p (open_can_device dt di, True) = (if p = Closed then Open else p)"
  by (simp add: spec_step_def)

lemma spec_step_stop: "spec_step p (stop_can_device dt di, True) = Closed"
  by (simp add: spec_step_def)

lemma spec_phase_receiving_state: "spec_phase receiving_state = Receiving"
proof -
  have "invoked receiving_state =
          [(open_can_device 4 0, True), (read_board_info 4 0, True),
           (start_receiving_data 4 0 0, True)]"
    by (simp add: receiving_state_def on_can_data_def resolved_simps initial_def)
  then show ?thesis
    by (simp add: spec_phase_def spec_step_def)
qed

subsection \<open>Operations while the session is closed\<close>

text \<open>
  C1, as stated, fails. The claim: every operation other than \<^verbatim>\<open>open\<close> that is
  invoked while the phase is Closed fails locally, sending no request and setting
  \<^verbatim>\<open>errorMessage\<close>. In the initial state, whose phase is Closed, reading the identity
  and starting reception each send their request; when the driver resolves them,
  \<^verbatim>\<open>errorMessage\<close> stays unset and the identity is stored.
\<close>

theorem closed_operations_reach_driver:
  "spec_phase initial = Closed
   \<and> invoked (readBoardInfo (Inr board_ABC123) initial) = [(read_board_info 4 0, True)]
   \<and> errorMessage (readBoardInfo (Inr board_ABC123) initial) = None
   \<and> boardInfo (readBoardInfo (Inr board_ABC123) initial) = Some board_ABC123
   \<and> invoked (startReceivingData (Inr ()) initial) = [(start_receiving_data 4 0 0, True)]
   \<and> errorMessage (startReceivingData (Inr ()) initial) = None"
  by (simp add: spec_phase_initial resolved_simps) (simp add: initial_def)

text \<open>
  C1, amended. No operation looks at a phase. In every state, reading the identity,
  starting reception and stopping reception each send exactly one request;
  \<^verbatim>\<open>reconnectDevice\<close> sends its request exactly when a baud rate is selected and
  \<^verbatim>\<open>transmitCanData\<close> exactly when \<^verbatim>\<open>canMessage\<close> is not \<^verbatim>\<open>null\<close>; in the other
  case these two send nothing and set \<^verbatim>\<open>errorMessage\<close> to their validation message.
\<close>

theorem local_failure_only_by_validation:
  "invoked (readBoardInfo rb s) = invoked s @ [(read_board_info 4 0, \<not> isl rb)]
   \<and> invoked (startReceivingData ra s) = invoked s @ [(start_receiving_data 4 0 0, \<not> isl ra)]
   \<and> invoked (stopReceivingData r s) = invoked s @ [(stop_receiving_data, \<not> isl r)]
   \<and> invoked (reconnectDevice r s) =
        (case selectedBaud s of
           None \<Rightarrow> invoked s
         | Some baud \<Rightarrow>
             invoked s @
               [(reconnect_can_device 4 0 0 1 (timing0 baud) (timing1 baud), \<not> isl r)])
   \<and> invoked (transmitCanData r s) =
        (if canMessage s = Null then invoked s
         else invoked s @ [(transmit_can_data (canMessage s) 4 0 0, \<not> isl r)])
   \<and> (selectedBaud s = None \<longrightarrow> errorMessage (reconnectDevice r s) = Some msg_select_baud)
   \<and> (canMessage s = Null \<longrightarrow> errorMessage (transmitCanData r s) = Some msg_enter_data)"
proof -
  have rd: "invoked (readBoardInfo rb s) = invoked s @ [(read_board_info 4 0, \<not> isl rb)]"
    by (cases rb) (simp_all add: readBoardInfo_resolved readBoardInfo_rejected)
  have st: "invoked (startReceivingData ra s)
              = invoked s @ [(start_receiving_data 4 0 0, \<not> isl ra)]"
    by (cases ra) (simp_all add: startReceivingData_resolved startReceivingData_rejected)
  have sp: "invoked (stopReceivingData r s) = invoked s @ [(stop_receiving_data, \<not> isl r)]"
    by (cases r) (simp_all add: stopReceivingData_resolved stopReceivingData_rejected)
  have rc: "invoked (reconnectDevice r s) =
        (case selectedBaud s of
           None \<Rightarrow> invoked s
         | Some baud \<Rightarrow>
             invoked s @
               [(reconnect_can_device 4 0 0 1 (timing0 baud) (timing1 baud), \<not> isl r)])"
    by (cases "selectedBaud s"; cases r)
      (simp_all add: reconnectDevice_unselected reconnectDevice_resolved
         reconnectDevice_rejected)
  have tx: "invoked (transmitCanData r s) =
        (if canMessage s = Null then invoked s
         else invoked s @ [(transmit_can_data (canMessage s) 4 0 0, \<not> isl r)])"
    by (cases "canMessage s = Null"; cases r)
      (simp_all add: transmitCanData_absent transmitCanData_resolved transmitCanData_rejected)
  from rd st sp rc tx show ?thesis
    by (simp add: reconnectDevice_unselected transmitCanData_absent)
qed

theorem local_failure_only_by_validation_witness:
  "spec_phase unselected = Closed
   \<and> selectedBaud unselected = None
   \<and> canMessage unselected = Null
   \<and> invoked (reconnectDevice (Inr ''ok'') unselected) = []
   \<and> errorMessage (reconnectDevice (Inr ''ok'') unselected) = Some msg_select_baud
   \<and> invoked (transmitCanData (Inr ''ok'') unselected) = []
   \<and> errorMessage (transmitCanData (Inr ''ok'') unselected) = Some msg_enter_data
   \<and> invoked (stopReceivingData (Inr ''ok'') unselected) = [(stop_receiving_data, True)]"
  using local_failure_only_by_validation
          [of "Inr board_ABC123" unselected "Inr ()" "Inr ''ok''"]
  by (simp add: unselected_def initial_def spec_phase_def)

subsection \<open>Where a status text is recorded\<close>

text \<open>
  C2, evaluated at the scenario of the specification: from the initial state,
  \<^verbatim>\<open>openCanDevice\<close> with the driver answering "opened" and the identity
  \<open>{1, 2, "ABC123"}\<close>. The status text is stored in \<^verbatim>\<open>errorMessage\<close> (line 45) and
  \<^verbatim>\<open>actionMessage\<close> stays \<^verbatim>\<open>null\<close>, while the sibling \<^verbatim>\<open>stopReceivingData\<close>
  stores the status text of its request in \<^verbatim>\<open>actionMessage\<close> (line 135).
\<close>

theorem open_status_recorded_as_error:
  "actionMessage (openCanDevice (Inr ''opened'') (Inr board_ABC123) initial) = None
   \<and> errorMessage (openCanDevice (Inr ''opened'') (Inr board_ABC123) initial) = Some ''opened''
   \<and> boardInfo (openCanDevice (Inr ''opened'') (Inr board_ABC123) initial) = Some board_ABC123
   \<and> spec_phase (openCanDevice (Inr ''opened'') (Inr board_ABC123) initial) = Open
   \<and> actionMessage (stopReceivingData (Inr ''stopped'') initial) = Some ''stopped''
   \<and> errorMessage (stopReceivingData (Inr ''stopped'') initial) = None"
  by (simp add: resolved_simps initial_def spec_phase_def spec_step_def)

subsection \<open>Closing\<close>

text \<open>
  C3, as stated, fails. The claim: from Open or Receiving, \<^verbatim>\<open>close()\<close> clears the
  identity and the last frame and sets the phase to Closed. In the state
  \<^const>\<open>receiving_state\<close> (phase Receiving, last frame "ID=123 DATA=0102") a close whose
  request resolves leaves that frame in \<^verbatim>\<open>canData\<close>: it is not reset to the empty
  string the ref is created with.
\<close>

theorem close_keeps_last_frame:
  "spec_phase receiving_state = Receiving
   \<and> canData receiving_state = ''ID=123 DATA=0102''
   \<and> canData (closeCanDevice (Inr ''closed'') receiving_state) = ''ID=123 DATA=0102''
   \<and> canData (closeCanDevice (Inr ''closed'') receiving_state) \<noteq> canData initial"
  by (simp add: spec_phase_receiving_state closeCanDevice_resolved)
     (simp add: receiving_state_def on_can_data_def initial_def)

text \<open>
  C3, amended. In every state, a close whose request resolves clears the identity and
  brings the phase to Closed; a close never changes \<^verbatim>\<open>canData\<close>. A close whose
  request is rejected leaves the identity and the phase as they were and sets
  \<^verbatim>\<open>errorMessage\<close> to the failure message.
\<close>

theorem close_clears_identity_only:
  "boardInfo (closeCanDevice (Inr m) s) = None
   \<and> spec_phase (closeCanDevice (Inr m) s) = Closed
   \<and> canData (closeCanDevice r s) = canData s
   \<and> boardInfo (closeCanDevice (Inl e) s) = boardInfo s
   \<and> spec_phase (closeCanDevice (Inl e) s) = spec_phase s
   \<and> errorMessage (closeCanDevice (Inl e) s) = Some (msg_close_failed @ e)"
proof -
  have frame: "canData (closeCanDevice r s) = canData s"
    by (cases r) (simp_all add: closeCanDevice_resolved closeCanDevice_rejected)
  have ok: "spec_phase (closeCanDevice (Inr m) s) = Closed"
    by (simp add: closeCanDevice_resolved spec_phase_def spec_step_stop)
  have failed: "spec_phase (closeCanDevice (Inl e) s) = spec_phase s"
    by (simp add: closeCanDevice_rejected spec_phase_def spec_step_rejected)
  from frame ok failed show ?thesis
    by (simp add: closeCanDevice_resolved closeCanDevice_rejected)
qed

theorem close_clears_identity_only_witness:
  "boardInfo receiving_state = Some board_ABC123
   \<and> boardInfo (closeCanDevice (Inr ''closed'') receiving_state) = None
   \<and> spec_phase (closeCanDevice (Inr ''closed'') receiving_state) = Closed
   \<and> canData (closeCanDevice (Inr ''closed'') receiving_state) = ''ID=123 DATA=0102''
   \<and> boardInfo (closeCanDevice (Inl ''busy'') receiving_state) = Some board_ABC123
   \<and> spec_phase (closeCanDevice (Inl ''busy'') receiving_state) = Receiving
   \<and> errorMessage (closeCanDevice (Inl ''busy'') receiving_state)
        = Some (msg_close_failed @ ''busy'')"
proof -
  have before: "boardInfo receiving_state = Some board_ABC123
                \<and> canData receiving_state = ''ID=123 DATA=0102''"
    by (simp add: receiving_state_def on_can_data_def resolved_simps)
  from close_clears_identity_only [of "''closed''" receiving_state "Inr ''closed''" "''busy''"]
       before spec_phase_receiving_state
  show ?thesis by simp
qed

subsection \<open>Opening and the identity read that follows\<close>

text \<open>
  C4. When \<^verbatim>\<open>open_can_device\<close> resolves, \<^verbatim>\<open>openCanDevice\<close> sends exactly one
  \<^verbatim>\<open>read_board_info\<close>, right after it. If that request is rejected, the phase is the
  one the resolved open gave (Open when it was Closed before), \<^verbatim>\<open>boardInfo\<close> is what
  it was (absent when it was absent) and \<^verbatim>\<open>errorMessage\<close> holds the failure message
  of the read: the text of line 34 followed by the driver's text.
\<close>

theorem open_reads_identity_once:
  "invoked (openCanDevice (Inr m) rb s)
     = invoked s @ [(open_can_device 4 0, True), (read_board_info 4 0, \<not> isl rb)]
   \<and> spec_phase (openCanDevice (Inr m) (Inl e) s)
       = (if spec_phase s = Closed then Open else spec_phase s)
   \<and> boardInfo (openCanDevice (Inr m) (Inl e) s) = boardInfo s
   \<and> errorMessage (openCanDevice (Inr m) (Inl e) s) = Some (msg_read_failed @ e)
   \<and> (spec_phase s = Closed \<and> boardInfo s = None \<longrightarrow>
        spec_phase (openCanDevice (Inr m) (Inl e) s) = Open
        \<and> boardInfo (openCanDevice (Inr m) (Inl e) s) = None)"
proof -
  have sent: "invoked (openCanDevice (Inr m) r s)
     = invoked s @ [(open_can_device 4 0, True), (read_board_info 4 0, \<not> isl r)]" for r
    by (cases r) (simp_all add: openCanDevice_resolved readBoardInfo_resolved
                    readBoardInfo_rejected)
  have "spec_phase (openCanDevice (Inr m) (Inl e) s)
          = spec_step (spec_step (spec_phase s) (open_can_device 4 0, True))
              (read_board_info 4 0, False)"
    by (simp add: spec_phase_def sent [of "Inl e"])
  then have ph: "spec_phase (openCanDevice (Inr m) (Inl e) s)
                   = (if spec_phase s = Closed then Open else spec_phase s)"
    by (simp only: spec_step_rejected spec_step_open)
  from sent ph show ?thesis
    by (simp add: openCanDevice_resolved readBoardInfo_rejected)
qed

theorem open_reads_identity_once_witness:
  "spec_phase initial = Closed \<and> boardInfo initial = None
   \<and> invoked (openCanDevice (Inr ''opened'') (Inl ''no answer'') initial)
       = [(open_can_device 4 0, True), (read_board_info 4 0, False)]
   \<and> spec_phase (openCanDevice (Inr ''opened'') (Inl ''no answer'') initial) = Open
   \<and> boardInfo (openCanDevice (Inr ''opened'') (Inl ''no answer'') initial) = None
   \<and> errorMessage (openCanDevice (Inr ''opened'') (Inl ''no answer'') initial)
       = Some (msg_read_failed @ ''no answer'')"
  using open_reads_identity_once [of "''opened''" "Inl ''no answer''" initial "''no answer''"]
  by (simp add: spec_phase_initial) (simp add: initial_def)

subsection \<open>Transmitting\<close>

text \<open>
  C5, evaluated. The claim: a \<^verbatim>\<open>transmit_can_data\<close> request is sent if and only if
  a payload is present; \<open>0\<close> is a payload, and with no payload nothing is sent and
  \<^verbatim>\<open>errorMessage\<close> gets the validation message of line 144. The code does so for
  the field that was never touched (\<^verbatim>\<open>null\<close>: nothing sent, message set) and for
  \<open>0\<close> (sent, carrying \<open>0\<close>). It does not for the field that was typed into and
  then cleared: the ref then holds the empty string, which is not \<^verbatim>\<open>null\<close>, so
  the request is sent with the empty string as its data and no message is set.
\<close>

theorem cleared_field_is_transmitted:
  "canMessage initial = Null
   \<and> invoked (transmitCanData (Inr ''sent'') initial) = []
   \<and> errorMessage (transmitCanData (Inr ''sent'') initial) = Some msg_enter_data
   \<and> invoked (transmitCanData (Inr ''sent'') (on_input (Some 0) initial))
        = [(transmit_can_data (Number 0) 4 0 0, True)]
   \<and> canMessage cleared_field = Text ''''
   \<and> invoked (transmitCanData (Inr ''sent'') cleared_field)
        = [(transmit_can_data (Text '''') 4 0 0, True)]
   \<and> errorMessage (transmitCanData (Inr ''sent'') cleared_field) = None
   \<and> actionMessage (transmitCanData (Inr ''sent'') cleared_field) = Some ''sent''"
proof -
  have untouched: "canMessage initial = Null" and quiet: "invoked initial = []"
    and no_error: "errorMessage initial = None"
    by (simp_all add: initial_def)
  have zero: "canMessage (on_input (Some 0) initial) = Number 0"
    and cleared: "canMessage cleared_field = Text ''''"
    by (simp_all add: cleared_field_def on_input_def)
  have same: "invoked (on_input (Some 0) initial) = []" "invoked cleared_field = []"
    "errorMessage cleared_field = None"
    by (simp_all add: cleared_field_def on_input_def quiet no_error)
  from untouched quiet zero cleared same show ?thesis
    by (simp add: transmitCanData_absent transmitCanData_resolved)
qed

subsection \<open>Setting the baud rate\<close>

text \<open>
  C6. With no baud rate selected, \<^verbatim>\<open>reconnectDevice\<close> sends nothing and changes
  nothing but \<^verbatim>\<open>errorMessage\<close>, which becomes the message of line 90; the phase is
  as before. With a baud rate selected, it sends one \<^verbatim>\<open>reconnect_can_device\<close> with
  the \<^verbatim>\<open>timing0\<close> and \<^verbatim>\<open>timing1\<close> of that entry and nothing else: no
  \<^verbatim>\<open>read_board_info\<close> follows, and \<^verbatim>\<open>boardInfo\<close> is not touched.
\<close>

theorem reconfigure_needs_profile:
  "(selectedBaud s = None \<longrightarrow>
      reconnectDevice r s = s\<lparr>errorMessage := Some msg_select_baud\<rparr>
      \<and> invoked (reconnectDevice r s) = invoked s
      \<and> spec_phase (reconnectDevice r s) = spec_phase s)
   \<and> (selectedBaud s \<noteq> None \<longrightarrow>
      invoked (reconnectDevice r s) =
        invoked s @
          [(reconnect_can_device 4 0 0 1
              (timing0 (the (selectedBaud s))) (timing1 (the (selectedBaud s))), \<not> isl r)])
   \<and> boardInfo (reconnectDevice r s) = boardInfo s"
proof (cases "selectedBaud s")
  case None
  then have "reconnectDevice r s = s\<lparr>errorMessage := Some msg_select_baud\<rparr>"
    by (rule reconnectDevice_unselected)
  with None show ?thesis
    by (simp add: spec_phase_def)
next
  case (Some baud)
  then show ?thesis
    by (cases r) (simp_all add: reconnectDevice_resolved reconnectDevice_rejected)
qed

theorem reconfigure_needs_profile_witness:
  "selectedBaud unselected = None
   \<and> reconnectDevice (Inr ''ok'') unselected = unselected\<lparr>errorMessage := Some msg_select_baud\<rparr>
   \<and> invoked (reconnectDevice (Inr ''ok'') unselected) = []
   \<and> selectedBaud initial \<noteq> None
   \<and> invoked (reconnectDevice (Inr ''ok'') initial)
        = [(reconnect_can_device 4 0 0 1 0x01 0x1C, True)]"
proof -
  have none: "selectedBaud unselected = None" and empty: "invoked unselected = []"
    by (simp_all add: unselected_def initial_def)
  have some: "selectedBaud initial
                = Some \<lparr>rate = ''250 Kbps'', timing0 = 0x01, timing1 = 0x1C\<rparr>"
    and empty': "invoked initial = []"
    by (simp_all add: initial_def baudRates_def)
  from reconfigure_needs_profile [of unselected "Inr ''ok''"]
       reconfigure_needs_profile [of initial "Inr ''ok''"] none empty some empty'
  show ?thesis by simp
qed

subsection \<open>Notifications\<close>

text \<open>
  C7. A frame notification, in every state and so in every phase, stores the delivered
  payload in \<^verbatim>\<open>canData\<close>, whatever was there before (of two notifications the later
  one stays); it changes no other ref, sends no request, and so leaves the phase as it
  was.
\<close>

theorem frame_recorded_unconditionally:
  "on_can_data payload s = s\<lparr>canData := payload\<rparr>
   \<and> canData (on_can_data payload s) = payload
   \<and> canData (on_can_data payload2 (on_can_data payload s)) = payload2
   \<and> invoked (on_can_data payload s) = invoked s
   \<and> spec_phase (on_can_data payload s) = spec_phase s"
  by (simp add: on_can_data_def spec_phase_def)

text \<open>The phases Closed and Receiving, each at a concrete state.\<close>

theorem frame_recorded_unconditionally_witness:
  "spec_phase initial = Closed
   \<and> canData (on_can_data ''ID=123 DATA=0102'' initial) = ''ID=123 DATA=0102''
   \<and> spec_phase (on_can_data ''ID=123 DATA=0102'' initial) = Closed
   \<and> spec_phase receiving_state = Receiving
   \<and> canData (on_can_data ''ID=124 DATA=0304'' receiving_state) = ''ID=124 DATA=0304''
   \<and> spec_phase (on_can_data ''ID=124 DATA=0304'' receiving_state) = Receiving"
proof -
  have closed: "canData (on_can_data ''ID=123 DATA=0102'' initial) = ''ID=123 DATA=0102''
                \<and> spec_phase (on_can_data ''ID=123 DATA=0102'' initial) = spec_phase initial"
    using frame_recorded_unconditionally [of "''ID=123 DATA=0102''" initial "[]"]
    by blast
  have receiving:
    "canData (on_can_data ''ID=124 DATA=0304'' receiving_state) = ''ID=124 DATA=0304''
     \<and> spec_phase (on_can_data ''ID=124 DATA=0304'' receiving_state)
         = spec_phase receiving_state"
    using frame_recorded_unconditionally [of "''ID=124 DATA=0304''" receiving_state "[]"]
    by blast
  from closed receiving show ?thesis
    by (simp add: spec_phase_initial spec_phase_receiving_state)
qed

text \<open>
  C8. In every state an \<^verbatim>\<open>error-message\<close> notification sets \<^verbatim>\<open>errorMessage\<close> to the
  delivered text and changes nothing else. So it does right after any operation,
  whatever that operation left there: after an open or a close that resolved,
  \<^verbatim>\<open>errorMessage\<close> held the status text of that call, and the delivered text replaces
  it.
\<close>

theorem driver_error_overwrites_lastError:
  "on_error_message text s = s\<lparr>errorMessage := Some text\<rparr>
   \<and> errorMessage (on_error_message text s) = Some text
   \<and> errorMessage (openCanDevice (Inr m) (Inr b) s) = Some m
   \<and> errorMessage (on_error_message text (openCanDevice (Inr m) (Inr b) s)) = Some text
   \<and> errorMessage (closeCanDevice (Inr m) s) = Some m
   \<and> errorMessage (on_error_message text (closeCanDevice (Inr m) s)) = Some text
   \<and> errorMessage (on_error_message text (reconnectDevice r s)) = Some text
   \<and> errorMessage (on_error_message text (startReceivingData ra s)) = Some text
   \<and> errorMessage (on_error_message text (stopReceivingData r s)) = Some text
   \<and> errorMessage (on_error_message text (transmitCanData r s)) = Some text"
  by (simp add: on_error_message_def resolved_simps)

theorem driver_error_overwrites_lastError_witness:
  "errorMessage (openCanDevice (Inr ''opened'') (Inr board_ABC123) initial) = Some ''opened''
   \<and> errorMessage
        (on_error_message ''bus off''
           (openCanDevice (Inr ''opened'') (Inr board_ABC123) initial)) = Some ''bus off''"
  using driver_error_overwrites_lastError
          [of "''bus off''" initial "''opened''" board_ABC123 "Inr ''ok''" "Inr ()"]
  by blast

subsection \<open>The baud rate table\<close>

text \<open>
  C9. The table is a constant: no operation takes it as a result, and none writes
  \<^verbatim>\<open>selectedBaud\<close>. Its labels are pairwise distinct, every \<^verbatim>\<open>timing0\<close> and
  \<^verbatim>\<open>timing1\<close> lies between 0x00 and 0xFF, and the initial state has one profile
  selected: the only entry labelled "250 Kbps", with \<^verbatim>\<open>timing0\<close> 0x01 and
  \<^verbatim>\<open>timing1\<close> 0x1C.
\<close>

theorem baud_catalog_invariant:
  "distinct (map rate baudRates)
   \<and> (\<forall>b \<in> set baudRates.
         0x00 \<le> timing0 b \<and> timing0 b \<le> 0xFF \<and> 0x00 \<le> timing1 b \<and> timing1 b \<le> 0xFF)
   \<and> selectedBaud initial = Some \<lparr>rate = ''250 Kbps'', timing0 = 0x01, timing1 = 0x1C\<rparr>
   \<and> filter (\<lambda>b. rate b = ''250 Kbps'') baudRates
        = [\<lparr>rate = ''250 Kbps'', timing0 = 0x01, timing1 = 0x1C\<rparr>]
   \<and> selectedBaud (readBoardInfo rb s) = selectedBaud s
   \<and> selectedBaud (openCanDevice ro rb s) = selectedBaud s
   \<and> selectedBaud (closeCanDevice r s) = selectedBaud s
   \<and> selectedBaud (reconnectDevice r s) = selectedBaud s
   \<and> selectedBaud (startReceivingData ra s) = selectedBaud s
   \<and> selectedBaud (stopReceivingData r s) = selectedBaud s
   \<and> selectedBaud (transmitCanData r s) = selectedBaud s
   \<and> selectedBaud (on_error_message text s) = selectedBaud s
   \<and> selectedBaud (on_can_data payload s) = selectedBaud s"
proof -
  have labels: "distinct (map rate baudRates)"
    by (simp add: baudRates_def)
  have bytes: "\<forall>b \<in> set baudRates.
         0x00 \<le> timing0 b \<and> timing0 b \<le> 0xFF \<and> 0x00 \<le> timing1 b \<and> timing1 b \<le> 0xFF"
    by (simp add: baudRates_def)
  have selected: "selectedBaud initial
                    = Some \<lparr>rate = ''250 Kbps'', timing0 = 0x01, timing1 = 0x1C\<rparr>"
    by (simp add: initial_def baudRates_def)
  have only: "filter (\<lambda>b. rate b = ''250 Kbps'') baudRates
                = [\<lparr>rate = ''250 Kbps'', timing0 = 0x01, timing1 = 0x1C\<rparr>]"
    by (simp add: baudRates_def)
  have kept: "selectedBaud (readBoardInfo rb s) = selectedBaud s
   \<and> selectedBaud (openCanDevice ro rb s) = selectedBaud s
   \<and> selectedBaud (closeCanDevice r s) = selectedBaud s
   \<and> selectedBaud (reconnectDevice r s) = selectedBaud s
   \<and> selectedBaud (startReceivingData ra s) = selectedBaud s
   \<and> selectedBaud (stopReceivingData r s) = selectedBaud s
   \<and> selectedBaud (transmitCanData r s) = selectedBaud s
   \<and> selectedBaud (on_error_message text s) = selectedBaud s
   \<and> selectedBaud (on_can_data payload s) = selectedBaud s"
    by (simp add: op_defs Let_def split: sum.split option.split)
  from labels bytes selected only kept show ?thesis
    by blast
qed

theorem baud_catalog_invariant_witness:
  "\<lparr>rate = ''40 Kbps'', timing0 = 0x87, timing1 = 0xFF\<rparr> \<in> set baudRates
   \<and> 0x00 \<le> timing0 \<lparr>rate = ''40 Kbps'', timing0 = 0x87, timing1 = 0xFF\<rparr>
   \<and> timing1 \<lparr>rate = ''40 Kbps'', timing0 = 0x87, timing1 = 0xFF\<rparr> \<le> 0xFF"
proof -
  have member: "\<lparr>rate = ''40 Kbps'', timing0 = 0x87, timing1 = 0xFF\<rparr> \<in> set baudRates"
    by (simp add: baudRates_def)
  with baud_catalog_invariant [of "Inr board_ABC123" initial "Inr ''ok''" "Inr ''ok''" "Inr ()"]
  show ?thesis by blast
qed

subsection \<open>An identity read that fails after the open\<close>

text \<open>
  C10. When \<^verbatim>\<open>open_can_device\<close> resolves with a status text and the
  \<^verbatim>\<open>read_board_info\<close> that follows is rejected, the state at the end is the state
  before with \<^verbatim>\<open>errorMessage\<close> set to the text of line 34 followed by the driver's
  text, and the two requests added to the trace. The status text of the open, which
  line 45 had put into \<^verbatim>\<open>errorMessage\<close>, is in no ref: the final state is the same
  whatever that text was. \<^verbatim>\<open>boardInfo\<close> is as before, so absent when it was absent.
\<close>

theorem open_text_overwritten_by_read_failure:
  "openCanDevice (Inr m) (Inl e) s
     = s\<lparr>errorMessage := Some (msg_read_failed @ e),
         invoked := invoked s @ [(open_can_device 4 0, True), (read_board_info 4 0, False)]\<rparr>
   \<and> errorMessage (openCanDevice (Inr m) (Inl e) s) = Some (msg_read_failed @ e)
   \<and> openCanDevice (Inr m) (Inl e) s = openCanDevice (Inr m') (Inl e) s
   \<and> errorMessage (openCanDevice (Inr m) (Inr b) s) = Some m
   \<and> (boardInfo s = None \<longrightarrow> boardInfo (openCanDevice (Inr m) (Inl e) s) = None)"
  by (simp add: openCanDevice_resolved readBoardInfo_rejected readBoardInfo_resolved)

theorem open_text_overwritten_by_read_failure_witness:
  "boardInfo initial = None
   \<and> errorMessage (openCanDevice (Inr ''opened'') (Inl ''timeout'') initial)
        = Some (msg_read_failed @ ''timeout'')
   \<and> errorMessage (openCanDevice (Inr ''opened'') (Inl ''timeout'') initial) \<noteq> Some ''opened''
   \<and> actionMessage (openCanDevice (Inr ''opened'') (Inl ''timeout'') initial) = None
   \<and> boardInfo (openCanDevice (Inr ''opened'') (Inl ''timeout'') initial) = None"
proof -
  have absent: "boardInfo initial = None" and quiet: "actionMessage initial = None"
    by (simp_all add: initial_def)
  from open_text_overwritten_by_read_failure
         [of "''opened''" "''timeout''" initial "''opened''" board_ABC123] absent quiet
  show ?thesis
    by (simp add: msg_read_failed_def)
qed

end
